theory Spec2Isabelle
  imports Main "HOL-Library.Word" "HOL-Library.AList" "HOL-Library.Multiset"
begin

unbundle bit_operations_syntax

section \<open>Package cmd: frames and connections (gateway.go)\<close>

text \<open>
  The functions of \<^verbatim>\<open>gateway/gateway.go\<close> (package \<^verbatim>\<open>cmd\<close>) and of \<^verbatim>\<open>router/handle.go\<close>
  as functions of HOL, under the names they have in the source. A method with a pointer
  receiver takes the state of its receiver and returns the state after the call; an
  \<^verbatim>\<open>error\<close> result is an \<open>error option\<close> or the left summand of a sum, and a panic is a
  value of \<open>error\<close> as well. A byte slice is a list of bytes, \<^verbatim>\<open>nil\<close> being the empty list.
\<close>

subsection \<open>Constants\<close>

type_synonym byte = "8 word"

text \<open>\<^verbatim>\<open>maxMessageSize = 32 << 10\<close> and \<^verbatim>\<open>sendQueueSize = 16 << 10\<close>.\<close>

definition maxMessageSize :: nat where
  "maxMessageSize = push_bit 10 32"

definition sendQueueSize :: nat where
  "sendQueueSize = push_bit 10 16"

definition RawMessage :: byte where "RawMessage = 0x01"
definition CloseMessage :: byte where "CloseMessage = 0xf0"
definition PingMessage :: byte where "PingMessage = 0xf1"
definition PongMessage :: byte where "PongMessage = 0xf2"
definition AuthMessage :: byte where "AuthMessage = 0xf3"

text \<open>
  The errors of the package, as values. \<open>EOF\<close> and \<open>ErrUnexpectedEOF\<close> are what
  \<^verbatim>\<open>io.ReadFull\<close> returns on a stream that ends too early; \<open>PanicCloseOfClosedChannel\<close> and
  \<open>PanicSendOnClosedChannel\<close> are the two run-time panics of Go's channels.
\<close>

datatype error =
    EOF
  | ErrUnexpectedEOF
  | ErrInvalidData                \<comment> \<open>\<^verbatim>\<open>errors.New("invalid data")\<close>\<close>
  | errTooLargeMessage
  | ErrConnectionClosed           \<comment> \<open>\<^verbatim>\<open>errors.New("connection is closed")\<close>\<close>
  | ErrWriteTooBusy               \<comment> \<open>\<^verbatim>\<open>errors.New("write too busy")\<close>\<close>
  | ErrInvalidMessageIdChars      \<comment> \<open>\<^verbatim>\<open>errors.New("invalid message id")\<close>\<close>
  | ErrRouteInvalidService        \<comment> \<open>\<^verbatim>\<open>errors.New("gateway try to route invalid service")\<close>\<close>
  | errInvalidMessageID           \<comment> \<open>\<^verbatim>\<open>errors.New("invalid message ID")\<close>\<close>
  | ErrDecode string              \<comment> \<open>what \<^verbatim>\<open>json.Unmarshal\<close> (or the encoder) reports\<close>
  | PanicCloseOfClosedChannel
  | PanicSendOnClosedChannel

subsection \<open>The connection\<close>

text \<open>
  A buffered channel \<^verbatim>\<open>chan []byte\<close>: the queued elements, oldest first, the capacity it
  was made with, and whether \<^verbatim>\<open>close\<close> has been called on it.
\<close>

record 'a chan =
  queue :: "'a list"
  capacity :: nat
  closed :: bool

text \<open>
  \<^verbatim>\<open>net.Conn\<close>, as far as the package uses it: the bytes the peer has sent and that are
  still unread (the stream ends after them), the bytes written to the peer so far, and the
  peer's address.
\<close>

record NetConn =
  incoming :: "byte list"
  outgoing :: "byte list"
  remoteAddr :: string

record TCPConn =
  rwc :: NetConn
  ssid :: string
  send :: "byte list chan"
  isClose :: bool

text \<open>\<^verbatim>\<open>close(ch)\<close>: panics on a channel that is closed already.\<close>

definition chan_close :: "'a chan \<Rightarrow> error + 'a chan" where
  "chan_close ch = (if closed ch then Inl PanicCloseOfClosedChannel else Inr (ch\<lparr>closed := True\<rparr>))"

text \<open>
  \<^verbatim>\<open>select { case ch <- v: default: }\<close>: the send case is taken when the buffer has room;
  with a full buffer the default case runs at once. The result is \<open>Inr (Some ch')\<close> when
  the value was queued, \<open>Inr None\<close> when the default case ran. Sending on a closed channel
  panics.
\<close>

definition chan_try_send :: "'a chan \<Rightarrow> 'a \<Rightarrow> error + 'a chan option" where
  "chan_try_send ch v =
     (if closed ch then Inl PanicSendOnClosedChannel
      else if length (queue ch) < capacity ch then Inr (Some (ch\<lparr>queue := queue ch @ [v]\<rparr>))
      else Inr None)"

text \<open>
  \<^verbatim>\<open>func (c *TCPConn) Close()\<close>. The result is the connection after the call, or the panic
  of closing the channel twice.
\<close>

definition Close :: "TCPConn \<Rightarrow> error + TCPConn" where
  "Close c =
     (if isClose c = True then Inr c
      else (let c1 = c\<lparr>isClose := True\<rparr> in
            case chan_close (send c1) of
              Inl err \<Rightarrow> Inl err
            | Inr ch \<Rightarrow> Inr (c1\<lparr>send := ch\<rparr>)))"

definition RemoteAddr :: "TCPConn \<Rightarrow> string" where
  "RemoteAddr c = remoteAddr (rwc c)"

text \<open>
  \<^verbatim>\<open>io.ReadFull(r, buf)\<close> with \<open>n = len(buf)\<close>: exactly \<open>n\<close> bytes, or \<open>EOF\<close> when the
  stream has none left, or \<open>ErrUnexpectedEOF\<close> when it ends before \<open>n\<close> bytes (the bytes
  read until then are consumed).
\<close>

definition ReadFull :: "NetConn \<Rightarrow> nat \<Rightarrow> (error + byte list) \<times> NetConn" where
  "ReadFull r n =
     (if n \<le> length (incoming r) then (Inr (take n (incoming r)), r\<lparr>incoming := drop n (incoming r)\<rparr>)
      else if incoming r = [] then (Inl EOF, r)
      else (Inl ErrUnexpectedEOF, r\<lparr>incoming := []\<rparr>))"

text \<open>\<^verbatim>\<open>binary.BigEndian.Uint16\<close> and \<^verbatim>\<open>binary.BigEndian.PutUint16\<close>.\<close>

definition BigEndian_Uint16 :: "byte \<Rightarrow> byte \<Rightarrow> 16 word" where
  "BigEndian_Uint16 b0 b1 = (ucast b1 OR push_bit 8 (ucast b0))"

definition BigEndian_PutUint16 :: "16 word \<Rightarrow> byte list" where
  "BigEndian_PutUint16 v = [ucast (drop_bit 8 v), ucast v]"

text \<open>
  \<^verbatim>\<open>func (c *TCPConn) ReadMessage() (mt uint8, buf []byte, err error)\<close>. The result is the
  error, or the type and the payload, together with the connection after the reads.
\<close>

definition ReadMessage :: "TCPConn \<Rightarrow> (error + byte \<times> byte list) \<times> TCPConn" where
  "ReadMessage c =
     (case ReadFull (rwc c) 3 of
        (Inl err, r1) \<Rightarrow> (Inl err, c\<lparr>rwc := r1\<rparr>)
      | (Inr head, r1) \<Rightarrow>
          (let n = unat (BigEndian_Uint16 (head ! 1) (head ! 2));
               mt = head ! 0;
               c1 = c\<lparr>rwc := r1\<rparr>
           in if mt = PingMessage \<or> mt = PongMessage \<or> mt = CloseMessage then (Inr (mt, []), c1)
              else if mt = AuthMessage \<or> mt = RawMessage then
                (if n > 0 \<and> n < maxMessageSize then
                   (case ReadFull r1 n of
                      (Inr buf, r2) \<Rightarrow> (Inr (mt, buf), c\<lparr>rwc := r2\<rparr>)
                    | (Inl _, r2) \<Rightarrow> (Inl ErrInvalidData, c\<lparr>rwc := r2\<rparr>))
                 else (Inl ErrInvalidData, c1))
              else (Inl ErrInvalidData, c1)))"

text \<open>
  \<^verbatim>\<open>func (c *TCPConn) NewMessageBytes(mt int, data []byte) ([]byte, error)\<close>.
  \<^verbatim>\<open>byte(mt)\<close> keeps the low eight bits, \<^verbatim>\<open>uint16(len(data))\<close> the low sixteen.
\<close>

definition NewMessageBytes :: "int \<Rightarrow> byte list \<Rightarrow> error + byte list" where
  "NewMessageBytes mt msg =
     (if length msg > maxMessageSize then Inl errTooLargeMessage
      else Inr (word_of_int mt # BigEndian_PutUint16 (of_nat (length msg)) @ msg))"

text \<open>
  \<^verbatim>\<open>func (c *TCPConn) Write(data []byte) error\<close>: the returned error (\<open>None\<close> is \<^verbatim>\<open>nil\<close>)
  and the connection after the call; a panic is the \<open>Inl\<close> case.
\<close>

definition Write :: "TCPConn \<Rightarrow> byte list \<Rightarrow> error + (error option \<times> TCPConn)" where
  "Write c msg =
     (if isClose c = True then Inr (Some ErrConnectionClosed, c)
      else (case chan_try_send (send c) msg of
              Inl err \<Rightarrow> Inl err
            | Inr (Some ch) \<Rightarrow> Inr (None, c\<lparr>send := ch\<rparr>)
            | Inr None \<Rightarrow> Inr (Some ErrWriteTooBusy, c)))"

text \<open>
  \<^verbatim>\<open>func (c *TCPConn) writeMsg(mt int, msg []byte) (int, error)\<close>; \<^verbatim>\<open>c.rwc.Write\<close> appends
  the whole buffer to the bytes sent to the peer.
\<close>

definition writeMsg :: "TCPConn \<Rightarrow> int \<Rightarrow> byte list \<Rightarrow> (error + nat) \<times> TCPConn" where
  "writeMsg c mt msg =
     (case NewMessageBytes mt msg of
        Inl err \<Rightarrow> (Inl err, c)
      | Inr buf \<Rightarrow> (Inr (length buf), c\<lparr>rwc := (rwc c)\<lparr>outgoing := outgoing (rwc c) @ buf\<rparr>\<rparr>))"

text \<open>
  The connections of a process live on the heap and the methods take a pointer to one. A
  store maps the address of a connection to its state; \<open>Write_at\<close> is \<^verbatim>\<open>c.Write(data)\<close>
  for the connection at an address.
\<close>

type_synonym conn_store = "nat \<Rightarrow> TCPConn"

definition Write_at :: "conn_store \<Rightarrow> nat \<Rightarrow> byte list \<Rightarrow> error + (error option \<times> conn_store)" where
  "Write_at st a msg =
     (case Write (st a) msg of
        Inl err \<Rightarrow> Inl err
      | Inr (res, c') \<Rightarrow> Inr (res, st(a := c')))"

subsection \<open>The command set\<close>

text \<open>
  A connection as a handler sees it (\<^verbatim>\<open>ctx.Out\<close>) is an address: two are the same
  connection when the addresses are equal.
\<close>

type_synonym conn = nat

record Context =
  Out :: conn
  Ssid :: string
  isGateway :: bool

text \<open>
  \<^verbatim>\<open>cmdEntry\<close>: the handler and the \<^verbatim>\<open>reflect.Type\<close> of the argument. Handlers are values
  of a type \<open>'hd\<close>, types are values of a type \<open>'ty\<close>; neither is looked into. The field
  \<^verbatim>\<open>type_\<close> is written \<open>type'\<close>.
\<close>

record ('hd, 'ty) cmdEntry =
  h :: 'hd
  type' :: 'ty

text \<open>
  \<^verbatim>\<open>CmdSet\<close>: both fields are Go maps. The mutex is left out: a call runs from its
  \<^verbatim>\<open>Lock\<close> to its \<^verbatim>\<open>Unlock\<close> without another call in between.
\<close>

record ('hd, 'ty) CmdSet =
  services :: "string \<rightharpoonup> bool"
  e :: "string \<rightharpoonup> ('hd, 'ty) cmdEntry"

definition defaultCmdSet :: "('hd, 'ty) CmdSet" where
  "defaultCmdSet = \<lparr>services = Map.empty, e = Map.empty\<rparr>"

definition RemoveService :: "('hd, 'ty) CmdSet \<Rightarrow> string \<Rightarrow> ('hd, 'ty) CmdSet" where
  "RemoveService s nm = s\<lparr>services := (services s)(nm \<mapsto> False)\<rparr>"

definition RegisterService :: "('hd, 'ty) CmdSet \<Rightarrow> string \<Rightarrow> ('hd, 'ty) CmdSet" where
  "RegisterService s nm = s\<lparr>services := (services s)(nm \<mapsto> True)\<rparr>"

definition RecoverService :: "('hd, 'ty) CmdSet \<Rightarrow> string \<Rightarrow> ('hd, 'ty) CmdSet" where
  "RecoverService s nm =
     (case services s nm of
        Some _ \<Rightarrow> s\<lparr>services := (services s)(nm \<mapsto> True)\<rparr>
      | None \<Rightarrow> s)"

text \<open>
  \<^verbatim>\<open>func (s *CmdSet) Bind(name string, h Handler, i interface{})\<close>. Of \<open>i\<close> the function
  reads \<^verbatim>\<open>reflect.TypeOf(i)\<close> only, so the model takes that type, \<open>ty\<close>. The result is the
  lines written to the log (\<^verbatim>\<open>log.Warnf("%s exist", name)\<close>) and the set after the call;
  the function returns nothing, so it cannot reject.
\<close>

definition Bind ::
  "('hd, 'ty) CmdSet \<Rightarrow> string \<Rightarrow> 'hd \<Rightarrow> 'ty \<Rightarrow> string list \<times> ('hd, 'ty) CmdSet" where
  "Bind s nm handler ty =
     (let warn = (case e s nm of Some _ \<Rightarrow> [nm @ '' exist''] | None \<Rightarrow> [])
      in (warn, s\<lparr>e := (e s)(nm \<mapsto> \<lparr>h = handler, type' = ty\<rparr>)\<rparr>))"

text \<open>
  \<^verbatim>\<open>regexp.MatchString("^[A-Za-z0-9]+$", name)\<close>: the pattern compiles, so the error is
  \<^verbatim>\<open>nil\<close>, and the match holds when the string is not empty and each of its bytes is an
  ASCII letter or digit (\<^verbatim>\<open>$\<close> is the end of the text; a byte above 127 is part of a
  rune outside the class).
\<close>

definition isAlnum :: "char \<Rightarrow> bool" where
  "isAlnum c =
     (let n = (of_char c :: nat)
      in (65 \<le> n \<and> n \<le> 90) \<or> (97 \<le> n \<and> n \<le> 122) \<or> (48 \<le> n \<and> n \<le> 57))"

definition MatchString_alnum :: "string \<Rightarrow> bool" where
  "MatchString_alnum str = (str \<noteq> [] \<and> list_all isAlnum str)"

text \<open>
  What \<^verbatim>\<open>Handle\<close> does besides returning: \<^verbatim>\<open>ss.Route(serverName, name, data)\<close> on the
  session it found, or \<^verbatim>\<open>Enqueue(ctx, e.h, args)\<close>.
\<close>

datatype ('ss, 'hd, 'a) action =
    SessionRoute 'ss string string "byte list"
  | Enqueue Context 'hd 'a

text \<open>
  \<^verbatim>\<open>func (s *CmdSet) Handle(ctx *Context, messageID string, data []byte) error\<close>.
  Three functions it calls are not part of the file and are parameters:
  \<^item> \<open>routeMessage\<close>, which splits a message id into the server name and the name;
  \<^item> \<open>GetSession\<close>, the session of a session id, \<open>None\<close> for \<^verbatim>\<open>nil\<close>;
  \<^item> \<open>decode\<close>, for \<^verbatim>\<open>reflect.New(e.type_.Elem())\<close> followed by \<^verbatim>\<open>json.Unmarshal\<close>.
  The result is the returned error (\<open>None\<close> is \<^verbatim>\<open>nil\<close>) and the actions taken.
\<close>

definition Handle ::
  "(string \<Rightarrow> string \<Rightarrow> string \<times> string) \<Rightarrow> (string \<Rightarrow> 'ss option) \<Rightarrow>
   ('ty \<Rightarrow> byte list \<Rightarrow> error + 'a) \<Rightarrow>
   ('hd, 'ty) CmdSet \<Rightarrow> Context \<Rightarrow> string \<Rightarrow> byte list \<Rightarrow>
   error option \<times> ('ss, 'hd, 'a) action list" where
  "Handle routeMessage GetSession decode s ctx messageID msg =
     (let msg1 = (if msg = [] then [0x7b, 0x7d] else msg);
          (serverName, nm) = routeMessage [] messageID
      in if isGateway ctx = True \<and> \<not> MatchString_alnum nm then (Some ErrInvalidMessageIdChars, [])
         else
           (let ent = e s nm;
                isService = (case services s serverName of Some b \<Rightarrow> b | None \<Rightarrow> False)
            in if length serverName > 0 then
                 (if isGateway ctx = True \<and> isService = False then (Some ErrRouteInvalidService, [])
                  else (case GetSession (Ssid ctx) of
                          Some ss \<Rightarrow> (None, [SessionRoute ss serverName nm msg1])
                        | None \<Rightarrow> (None, [])))
               else (case ent of
                       None \<Rightarrow> (Some errInvalidMessageID, [])
                     | Some en \<Rightarrow>
                         (case decode (type' en) msg1 of
                            Inl err \<Rightarrow> (Some err, [])
                          | Inr args \<Rightarrow> (None, [Enqueue ctx (h en) args])))))"

text \<open>
  Modelled from the spec: the message-id router \<^verbatim>\<open>routeMessage\<close> is not among the sources.
  The spec gives the convention \<^verbatim>\<open>"<serviceName>.<localName>"\<close>, or a bare
  \<^verbatim>\<open>"<localName>"\<close> for local handling; this function splits at the first dot and keeps
  the given server name when there is none. It is the router of the examples; the
  theorems hold for every router.
\<close>

definition routeMessage_dot :: "string \<Rightarrow> string \<Rightarrow> string \<times> string" where
  "routeMessage_dot server messageID =
     (if CHR ''.'' \<in> set messageID
      then (takeWhile (\<lambda>c. c \<noteq> CHR ''.'') messageID, tl (dropWhile (\<lambda>c. c \<noteq> CHR ''.'') messageID))
      else (server, messageID))"


section \<open>Package main: the router's handlers (router/handle.go)\<close>

subsection \<open>Library: \<^verbatim>\<open>net.SplitHostPort\<close>\<close>

text \<open>
  \<^verbatim>\<open>net.SplitHostPort\<close> of Go's library, which \<^verbatim>\<open>C2S_Register\<close> calls: the index of the
  first and of the last occurrence of a byte, the errors of an address, and the function
  with its result \<open>(host, port, err)\<close>; host and port are empty whenever there is an error.
\<close>

fun IndexByteString :: "string \<Rightarrow> char \<Rightarrow> nat option" where
  "IndexByteString [] c = None"
| "IndexByteString (x # xs) c = (if x = c then Some 0 else map_option Suc (IndexByteString xs c))"

definition LastIndexByteString :: "string \<Rightarrow> char \<Rightarrow> nat option" where
  "LastIndexByteString str c = map_option (\<lambda>i. length str - 1 - i) (IndexByteString (rev str) c)"

datatype AddrError =
    missingPort
  | tooManyColons
  | missingBracket
  | unexpectedOpenBracket
  | unexpectedCloseBracket

definition SplitHostPort_tail ::
  "string \<Rightarrow> string \<Rightarrow> nat \<Rightarrow> nat \<Rightarrow> nat \<Rightarrow> string \<times> string \<times> AddrError option" where
  "SplitHostPort_tail hostport host j k i =
     (if IndexByteString (drop j hostport) CHR ''['' \<noteq> None then ([], [], Some unexpectedOpenBracket)
      else if IndexByteString (drop k hostport) CHR '']'' \<noteq> None then ([], [], Some unexpectedCloseBracket)
      else (host, drop (i + 1) hostport, None))"

definition SplitHostPort :: "string \<Rightarrow> string \<times> string \<times> AddrError option" where
  "SplitHostPort hostport =
     (case LastIndexByteString hostport CHR '':'' of
        None \<Rightarrow> ([], [], Some missingPort)
      | Some i \<Rightarrow>
          (if hostport ! 0 = CHR ''['' then
             (case IndexByteString hostport CHR '']'' of
                None \<Rightarrow> ([], [], Some missingBracket)
              | Some close \<Rightarrow>
                  (if close + 1 = length hostport then ([], [], Some missingPort)
                   else if close + 1 = i then
                     SplitHostPort_tail hostport (take (close - 1) (drop 1 hostport)) 1 (close + 1) i
                   else if hostport ! (close + 1) = CHR '':'' then ([], [], Some tooManyColons)
                   else ([], [], Some missingPort)))
           else
             (let host = take i hostport
              in if IndexByteString host CHR '':'' \<noteq> None then ([], [], Some tooManyColons)
                 else SplitHostPort_tail hostport host 0 0 i)))"

subsection \<open>Messages\<close>

text \<open>
  The bodies the handlers send: a string, raw JSON (\<^verbatim>\<open>json.RawMessage\<close>), or a struct or
  map with its fields. \<open>WriteJSON c id body\<close> is the call \<^verbatim>\<open>c.WriteJSON(id, body)\<close> on the
  connection \<open>c\<close>; the handlers drop the error it returns.
\<close>

datatype jvalue =
    JString string
  | JRaw string
  | JObject "(string \<times> jvalue) list"

datatype event = WriteJSON conn string jvalue

record Args =
  ServerName :: string
  ServerAddr :: string
  ServerData :: string
  ServerType :: string
  Weight :: int

text \<open>
  \<^verbatim>\<open>cmd.ForwardArgs\<close>, with the three fields \<^verbatim>\<open>C2S_Route\<close> reads.
\<close>

record ForwardArgs =
  ServerList :: "string list"
  Name :: string
  Data :: jvalue

subsection \<open>The registry\<close>

text \<open>
  Modelled from the spec: the declarations of \<^verbatim>\<open>Server\<close> and of the router \<^verbatim>\<open>gRouter\<close> are
  not among the sources; the fields are those \<^verbatim>\<open>handle.go\<close> reads and writes. The spec has
  \<^verbatim>\<open>{servers: map[name -> Server], gateways: ordered list of Server}\<close>, gateways appearing in
  \<^verbatim>\<open>servers\<close> too. The handlers hold pointers (\<^verbatim>\<open>&Server{...}\<close>, \<^verbatim>\<open>gw.weight = ...\<close>), so the
  servers live in a store, \<open>objs\<close>, and both tables hold addresses into it: a server
  in both tables is one object. \<open>servers\<close> is the map as a list of its entries, no key
  twice, in the order a \<^verbatim>\<open>range\<close> visits them; Go leaves that order open, and what is
  proved below holds for every order of the list. The field \<^verbatim>\<open>typ\<close> is written \<open>typ'\<close>.
\<close>

record Server =
  out :: conn
  name :: string
  addr :: string
  data :: string
  typ' :: string
  weight :: int

record Router =
  objs :: "Server list"
  servers :: "(string \<times> nat) list"
  gateways :: "nat list"

definition gRouter :: Router where
  "gRouter = \<lparr>objs = [], servers = [], gateways = []\<rparr>"

text \<open>
  Modelled from the spec: \<^verbatim>\<open>AddServer\<close> is not among the sources. "Upserts by name; if
  type = gateway, also (re)inserts into the gateway list keyed by connection identity."
  \<open>p\<close> is the address of the server.
\<close>

definition AddServer :: "Router \<Rightarrow> nat \<Rightarrow> Router" where
  "AddServer r p =
     (let server = objs r ! p;
          r1 = r\<lparr>servers := AList.update (name server) p (servers r)\<rparr>
      in if typ' server = ''gateway''
         then r1\<lparr>gateways := filter (\<lambda>q. out (objs r ! q) \<noteq> out server) (gateways r) @ [p]\<rparr>
         else r1)"

text \<open>
  Modelled from the spec: \<^verbatim>\<open>GetServer\<close> is not among the sources. The server registered
  under a name, as its address, or \<open>None\<close> for \<^verbatim>\<open>nil\<close>.
\<close>

definition GetServer :: "Router \<Rightarrow> string \<Rightarrow> nat option" where
  "GetServer r nm = map_of (servers r) nm"

text \<open>
  Modelled from the spec: \<^verbatim>\<open>GetServerAddr\<close> is not among the sources.
  "getServerAddr(name): address or empty; lookup, no side effects."
\<close>

definition GetServerAddr :: "Router \<Rightarrow> string \<Rightarrow> string" where
  "GetServerAddr r nm = (case map_of (servers r) nm of None \<Rightarrow> [] | Some p \<Rightarrow> addr (objs r ! p))"

text \<open>
  Modelled from the spec: \<^verbatim>\<open>GetBestGateway\<close> is not among the sources. "Pick the gateway
  with the minimum current weight among all registered gateways (ties broken by
  registration/iteration order, which is unspecified). Returns empty if no gateway is
  registered." This one keeps the first gateway of minimum weight.
\<close>

fun pickBest :: "Server list \<Rightarrow> Server option \<Rightarrow> Server option" where
  "pickBest [] best = best"
| "pickBest (gw # gws) None = pickBest gws (Some gw)"
| "pickBest (gw # gws) (Some b) = pickBest gws (if weight gw < weight b then Some gw else Some b)"

definition GetBestGateway :: "Router \<Rightarrow> string" where
  "GetBestGateway r =
     (case pickBest (map (\<lambda>p. objs r ! p) (gateways r)) None of
        None \<Rightarrow> []
      | Some gw \<Rightarrow> addr gw)"

subsection \<open>The handlers\<close>

text \<open>
  A handler takes the router, the context and its arguments, and gives the router after
  the call and the messages sent, in order. The calls of the logger are left out.

  \<^verbatim>\<open>C2S_Register\<close>: \<open>peerAddr\<close> gives \<^verbatim>\<open>RemoteAddr()\<close> of a connection. The errors of
  \<^verbatim>\<open>SplitHostPort\<close> are dropped, as in the source.
\<close>

definition C2S_Register :: "(conn \<Rightarrow> string) \<Rightarrow> Router \<Rightarrow> Context \<Rightarrow> Args \<Rightarrow> Router \<times> event list" where
  "C2S_Register peerAddr r ctx args =
     (let (host0, port, _) = SplitHostPort (ServerAddr args);
          host = (if host0 = [] then fst (SplitHostPort (peerAddr (Out ctx))) else host0);
          address = (if port \<noteq> [] then host @ '':'' @ port else []);
          ok = WriteJSON (Out ctx) ''C2S_RegisterOk'' (JObject []);
          newServer = \<lparr>out = Out ctx, name = ServerName args, addr = address,
                       data = ServerData args, typ' = ServerType args, weight = 0\<rparr>;
          p = length (objs r);
          r1 = AddServer (r\<lparr>objs := objs r @ [newServer]\<rparr>) p;
          registered = map (\<lambda>(k, q). objs r1 ! q) (servers r1);
          gws = map (\<lambda>q. objs r1 ! q) (gateways r1);
          catalogue =
            (if typ' newServer = ''center''
             then map (\<lambda>server. WriteJSON (Out ctx) ''S2C_AddGame''
                        (JObject [(''Name'', JString (name server)), (''Data'', JRaw (data server))]))
                    registered
             else []);
          announce =
            map (\<lambda>server. WriteJSON (out server) ''S2C_AddGame''
                   (JObject [(''Name'', JString (name newServer)), (''Data'', JRaw (data newServer))]))
              (filter (\<lambda>server. typ' server = ''center'' \<and> name server \<noteq> name newServer) registered);
          inGateway =
            (if typ' newServer = ''gateway''
             then map (\<lambda>server. WriteJSON (Out ctx) ''FUNC_RegisterServiceInGateway''
                        (JObject [(''Name'', JString (name server))]))
                    registered
             else if addr newServer \<noteq> []
             then map (\<lambda>gw. WriteJSON (out gw) ''FUNC_RegisterServiceInGateway''
                        (JObject [(''Name'', JString (name newServer))]))
                    gws
             else [])
      in (r1, ok # catalogue @ announce @ inGateway))"

definition C2S_GetServerAddr :: "Router \<Rightarrow> Context \<Rightarrow> Args \<Rightarrow> event list" where
  "C2S_GetServerAddr r ctx args =
     (let nm = ServerName args;
          address = GetServerAddr r nm
      in [WriteJSON (Out ctx) ''S2C_GetServerAddr''
            (JObject [(''ServerName'', JString nm), (''ServerAddr'', JString address)])])"

text \<open>
  \<^verbatim>\<open>C2S_Concurrent\<close>: the loop writes the weight through the pointer \<open>gw\<close>, that is,
  into the store.
\<close>

definition setWeights :: "conn \<Rightarrow> int \<Rightarrow> nat list \<Rightarrow> Server list \<Rightarrow> Server list" where
  "setWeights c w gws store =
     fold (\<lambda>gw st. if out (st ! gw) = c then st[gw := (st ! gw)\<lparr>weight := w\<rparr>] else st) gws store"

definition C2S_Concurrent :: "Router \<Rightarrow> Context \<Rightarrow> Args \<Rightarrow> Router \<times> event list" where
  "C2S_Concurrent r ctx args =
     (let r1 = r\<lparr>objs := setWeights (Out ctx) (Weight args) (gateways r) (objs r)\<rparr>;
          address = GetBestGateway r1
      in (r1, case GetServer r1 ''login'' of
                None \<Rightarrow> []
              | Some s \<Rightarrow> [WriteJSON (out (objs r1 ! s)) ''S2C_GetBestGateway''
                             (JObject [(''Address'', JString address)])]))"

text \<open>
  \<^verbatim>\<open>C2S_Route\<close>. \<^verbatim>\<open>prefixMap\<close> is a Go map, and Go leaves open in which order
  \<^verbatim>\<open>for s := range prefixMap\<close> visits its keys: \<open>mapOrder\<close> is the order the run time
  picks, given the keys in the order they were first inserted.
\<close>

definition prefixMap :: "Router \<Rightarrow> (string \<times> bool) list" where
  "prefixMap r = fold (\<lambda>(k, q) m. AList.update (name (objs r ! q)) True m) (servers r) []"

definition C2S_Route :: "(string list \<Rightarrow> string list) \<Rightarrow> Router \<Rightarrow> Context \<Rightarrow> ForwardArgs \<Rightarrow> event list" where
  "C2S_Route mapOrder r ctx args =
     (let list0 = ServerList args;
          list1 = (if length list0 = 1 \<and> list0 ! 0 = ''*''
                   then mapOrder (map fst (prefixMap r))
                   else list0)
      in concat (map (\<lambda>nm. case GetServer r nm of
                              None \<Rightarrow> []
                            | Some s \<Rightarrow> [WriteJSON (out (objs r ! s)) (Name args) (Data args)])
                   list1))"

text \<open>
  The registry is well formed when every address in the two tables is an address of the
  store, no name is entered twice, and a server is entered under its own name: what
  \<^verbatim>\<open>AddServer\<close> keeps from the empty registry on.
\<close>

definition wf_router :: "Router \<Rightarrow> bool" where
  "wf_router r =
     (distinct (map fst (servers r)) \<and>
      list_all (\<lambda>(k, q). q < length (objs r) \<and> name (objs r ! q) = k) (servers r) \<and>
      list_all (\<lambda>q. q < length (objs r)) (gateways r))"


section \<open>Example values\<close>

text \<open>
  An open connection with an empty send queue of the capacity the package uses, whose
  peer has sent the given bytes.
\<close>

definition conn_reading :: "byte list \<Rightarrow> TCPConn" where
  "conn_reading bs =
     \<lparr>rwc = \<lparr>incoming = bs, outgoing = [], remoteAddr = ''10.0.0.1:4000''\<rparr>,
      ssid = [],
      send = \<lparr>queue = [], capacity = sendQueueSize, closed = False\<rparr>,
      isClose = False\<rparr>"

text \<open>An open connection whose send queue holds the given entries.\<close>

definition conn_queued :: "byte list list \<Rightarrow> TCPConn" where
  "conn_queued q =
     \<lparr>rwc = \<lparr>incoming = [], outgoing = [], remoteAddr = ''10.0.0.1:4000''\<rparr>,
      ssid = [],
      send = \<lparr>queue = q, capacity = sendQueueSize, closed = False\<rparr>,
      isClose = False\<rparr>"

text \<open>
  A store of connections in which the one at address 0 has a full send queue and every
  other one an empty queue.
\<close>

definition store_one_full :: conn_store where
  "store_one_full = (\<lambda>a. if a = 0 then conn_queued (replicate 16384 []) else conn_queued [])"

text \<open>
  Two callers with the same session id, one a gateway connection and one not; a session
  table that knows the session and one that knows none; a decoder that accepts every
  payload; a command set in which the service \<^verbatim>\<open>hall\<close> is registered.
\<close>

definition ctx_gateway :: Context where
  "ctx_gateway = \<lparr>Out = 1, Ssid = ''s-17'', isGateway = True\<rparr>"

definition ctx_server :: Context where
  "ctx_server = \<lparr>Out = 2, Ssid = ''s-17'', isGateway = False\<rparr>"

definition sessions_one :: "string \<Rightarrow> nat option" where
  "sessions_one sid = (if sid = ''s-17'' then Some 7 else None)"

definition sessions_none :: "string \<Rightarrow> nat option" where
  "sessions_none sid = None"

definition decode_any :: "nat \<Rightarrow> byte list \<Rightarrow> error + byte list" where
  "decode_any ty msg = Inr msg"

definition cmds_hall :: "(nat, nat) CmdSet" where
  "cmds_hall = RegisterService defaultCmdSet ''hall''"

text \<open>
  For the router: a context of the connection \<open>c\<close>; the peer addresses of the
  connections; a registry with a server \<^verbatim>\<open>login\<close> and three gateways of weights 5, 2 and
  2, each gateway entered in both tables; a registration of \<^verbatim>\<open>game1\<close> with an empty
  address and the query for it; a weight report; a message to forward.
\<close>

definition ctx_conn :: "conn \<Rightarrow> Context" where
  "ctx_conn c = \<lparr>Out = c, Ssid = [], isGateway = False\<rparr>"

definition peer_addrs :: "conn \<Rightarrow> string" where
  "peer_addrs c = (if c = 1 then ''10.0.0.1:50000'' else ''10.0.0.2:50000'')"

definition router_abc :: Router where
  "router_abc =
     \<lparr>objs =
        [\<lparr>out = 9, name = ''login'', addr = ''10.0.0.9:7000'', data = ''{}'',
          typ' = ''generic'', weight = 0\<rparr>,
         \<lparr>out = 1, name = ''gwA'', addr = ''10.0.0.1:8001'', data = ''{}'',
          typ' = ''gateway'', weight = 5\<rparr>,
         \<lparr>out = 2, name = ''gwB'', addr = ''10.0.0.2:8001'', data = ''{}'',
          typ' = ''gateway'', weight = 2\<rparr>,
         \<lparr>out = 3, name = ''gwC'', addr = ''10.0.0.3:8001'', data = ''{}'',
          typ' = ''gateway'', weight = 2\<rparr>],
      servers = [(''login'', 0), (''gwA'', 1), (''gwB'', 2), (''gwC'', 3)],
      gateways = [1, 2, 3]\<rparr>"

definition register_game1 :: Args where
  "register_game1 = \<lparr>ServerName = ''game1'', ServerAddr = [], ServerData = ''{}'',
     ServerType = ''generic'', Weight = 0\<rparr>"

definition query_game1 :: Args where
  "query_game1 = \<lparr>ServerName = ''game1'', ServerAddr = [], ServerData = [],
     ServerType = [], Weight = 0\<rparr>"

definition report_weight :: "int \<Rightarrow> Args" where
  "report_weight w = \<lparr>ServerName = [], ServerAddr = [], ServerData = [], ServerType = [], Weight = w\<rparr>"

definition forward_kick :: "string list \<Rightarrow> ForwardArgs" where
  "forward_kick names = \<lparr>ServerList = names, Name = ''Kick'', Data = JRaw ''[7]''\<rparr>"

section \<open>Frames: encoding and decoding\<close>

lemma maxMessageSize_eq: "maxMessageSize = 32768"
  by (simp add: maxMessageSize_def)

lemma sendQueueSize_eq: "sendQueueSize = 16384"
  by (simp add: sendQueueSize_def)

lemma Uint16_PutUint16:
  "BigEndian_Uint16 (ucast (drop_bit 8 v)) (ucast v) = (v :: 16 word)"
  unfolding BigEndian_Uint16_def
  by (rule bit_word_eqI) (auto simp add: bit_simps)

lemma unat_len16: "n < 65536 \<Longrightarrow> unat (of_nat n :: 16 word) = n"
  by (simp add: unat_of_nat)

lemma ReadMessage_frame:
  assumes mt: "mt = RawMessage \<or> mt = AuthMessage"
    and n: "0 < length payload" "length payload < maxMessageSize"
  shows "ReadMessage (c\<lparr>rwc := (rwc c)\<lparr>incoming :=
            (mt # BigEndian_PutUint16 (of_nat (length payload)) @ payload) @ rest\<rparr>\<rparr>)
       = (Inr (mt, payload), c\<lparr>rwc := (rwc c)\<lparr>incoming := rest\<rparr>\<rparr>)"
proof -
  have len: "unat (of_nat (length payload) :: 16 word) = length payload"
    using n by (simp add: unat_of_nat maxMessageSize_eq)
  have kinds: "mt \<noteq> PingMessage" "mt \<noteq> PongMessage" "mt \<noteq> CloseMessage"
    using mt
    by (auto simp add: RawMessage_def AuthMessage_def PingMessage_def PongMessage_def
        CloseMessage_def)
  show ?thesis
    using mt n kinds
    by (auto simp add: ReadMessage_def ReadFull_def BigEndian_PutUint16_def Uint16_PutUint16
        len Let_def)
qed

lemma NewMessageBytes_ok:
  "length payload \<le> maxMessageSize \<Longrightarrow>
   NewMessageBytes mt payload
     = Inr (word_of_int mt # BigEndian_PutUint16 (of_nat (length payload)) @ payload)"
  by (simp add: NewMessageBytes_def)

text \<open>
  C1. A frame of type Raw (0x01) or Auth (0xF3) with a payload of 1 to 32767 bytes is
  encoded without error, and reading a message from a connection on which the encoded
  bytes arrive (followed by any further bytes \<open>rest\<close>) gives the same type and the same
  payload with no error, and leaves exactly \<open>rest\<close> unread.
\<close>

theorem frame_round_trip:
  assumes "mt = RawMessage \<or> mt = AuthMessage"
    and "1 \<le> length payload" and "length payload \<le> 32767"
  shows "\<exists>buf. NewMessageBytes (uint mt) payload = Inr buf \<and>
           ReadMessage (c\<lparr>rwc := (rwc c)\<lparr>incoming := buf @ rest\<rparr>\<rparr>)
             = (Inr (mt, payload), c\<lparr>rwc := (rwc c)\<lparr>incoming := rest\<rparr>\<rparr>)"
proof -
  have le: "length payload \<le> maxMessageSize"
    and pos: "0 < length payload"
    and lt: "length payload < maxMessageSize"
    using assms(2,3) unfolding maxMessageSize_eq by arith+
  have enc: "NewMessageBytes (uint mt) payload
      = Inr (mt # BigEndian_PutUint16 (of_nat (length payload)) @ payload)"
    using NewMessageBytes_ok [OF le, of "uint mt"] by simp
  show ?thesis
    using enc ReadMessage_frame [OF assms(1) pos lt] by blast
qed

theorem frame_round_trip_witness:
  "\<exists>buf. NewMessageBytes (uint AuthMessage) [0x7b, 0x7d] = Inr buf \<and>
     ReadMessage (conn_reading (buf @ [0xf1, 0, 0]))
       = (Inr (AuthMessage, [0x7b, 0x7d]), conn_reading [0xf1, 0, 0])"
  using frame_round_trip [where mt = AuthMessage and payload = "[0x7b, 0x7d]"
      and c = "conn_reading []" and rest = "[0xf1, 0, 0]"]
  by (simp add: conn_reading_def)

subsection \<open>Oversized payloads\<close>

text \<open>
  A payload of more than 32768 bytes is refused by the encoder, and \<^verbatim>\<open>writeMsg\<close> then
  writes nothing; the decoder refuses a Raw or Auth header that announces 32768 bytes or
  more, and reads none of the payload.
\<close>

lemma NewMessageBytes_too_large:
  "length payload > maxMessageSize \<Longrightarrow> NewMessageBytes mt payload = Inl errTooLargeMessage"
  by (simp add: NewMessageBytes_def)

lemma writeMsg_too_large:
  "length payload > maxMessageSize \<Longrightarrow> writeMsg c mt payload = (Inl errTooLargeMessage, c)"
  by (simp add: writeMsg_def NewMessageBytes_def)

lemma ReadMessage_oversized:
  assumes "mt = RawMessage \<or> mt = AuthMessage"
    and "incoming (rwc c) = mt # b0 # b1 # rest"
    and "unat (BigEndian_Uint16 b0 b1) \<ge> maxMessageSize"
  shows "ReadMessage c = (Inl ErrInvalidData, c\<lparr>rwc := (rwc c)\<lparr>incoming := rest\<rparr>\<rparr>)"
  using assms
  by (auto simp add: ReadMessage_def ReadFull_def Let_def RawMessage_def AuthMessage_def
      PingMessage_def PongMessage_def CloseMessage_def)

text \<open>
  C2. The claim is that a payload of 32768 bytes or more is refused by the encoder as
  well as by the decoder. At exactly 32768 bytes the encoder does not refuse: the test
  in \<^verbatim>\<open>NewMessageBytes\<close> is \<^verbatim>\<open>len(data) > maxMessageSize\<close>, where \<^verbatim>\<open>ReadMessage\<close> has
  \<^verbatim>\<open>n < maxMessageSize\<close>. The frame is built with the length 0x8000, \<^verbatim>\<open>writeMsg\<close> writes
  its 32771 bytes, and \<^verbatim>\<open>ReadMessage\<close> refuses that same frame as invalid data.
\<close>

theorem NewMessageBytes_accepts_32768:
  "NewMessageBytes (uint RawMessage) (replicate 32768 0)
     = Inr (0x01 # 0x80 # 0x00 # replicate 32768 0) \<and>
   fst (writeMsg (conn_reading []) (uint RawMessage) (replicate 32768 0)) = Inr 32771 \<and>
   ReadMessage (conn_reading (0x01 # 0x80 # 0x00 # replicate 32768 0))
     = (Inl ErrInvalidData, conn_reading (replicate 32768 0))"
  by (simp add: NewMessageBytes_def writeMsg_def maxMessageSize_eq RawMessage_def
      BigEndian_PutUint16_def ReadMessage_def ReadFull_def conn_reading_def
      BigEndian_Uint16_def Let_def AuthMessage_def PingMessage_def PongMessage_def
      CloseMessage_def)

section \<open>The send queue and closing\<close>

lemma Write_open:
  assumes "isClose c = False" and "closed (send c) = False"
  shows "Write c msg =
     (if length (queue (send c)) < capacity (send c)
      then Inr (None, c\<lparr>send := (send c)\<lparr>queue := queue (send c) @ [msg]\<rparr>\<rparr>)
      else Inr (Some ErrWriteTooBusy, c))"
  using assms by (simp add: Write_def chan_try_send_def)

lemma Write_at_frame:
  "Write_at st a msg = Inr (res, st') \<Longrightarrow> b \<noteq> a \<Longrightarrow> st' b = st b"
  by (auto simp add: Write_at_def split: sum.splits prod.splits)

text \<open>
  C7. \<^verbatim>\<open>Write\<close> on an open connection whose send queue has the capacity 16384 returns at
  once: with fewer than 16384 entries queued the data is appended to the queue and the
  result is \<^verbatim>\<open>nil\<close>; with the queue full the result is the error "write too busy" and
  the queue is as before. Every other connection of the store is left as it was.
\<close>

theorem Write_backpressure:
  assumes "isClose (st a) = False" and "closed (send (st a)) = False"
    and "capacity (send (st a)) = sendQueueSize"
  shows "\<exists>res st'. Write_at st a msg = Inr (res, st') \<and>
     res = (if length (queue (send (st a))) < 16384 then None else Some ErrWriteTooBusy) \<and>
     queue (send (st' a)) =
       (if length (queue (send (st a))) < 16384 then queue (send (st a)) @ [msg]
        else queue (send (st a))) \<and>
     (\<forall>b. b \<noteq> a \<longrightarrow> st' b = st b)"
  using assms by (simp add: Write_at_def Write_open sendQueueSize_eq)

theorem Write_backpressure_witness:
  "\<exists>res st'. Write_at store_one_full 0 [0x7b, 0x7d] = Inr (res, st') \<and>
     res = Some ErrWriteTooBusy \<and>
     length (queue (send (st' 0))) = 16384 \<and>
     st' 1 = store_one_full 1 \<and>
     queue (send (st' 1)) = []"
  using Write_backpressure [where st = store_one_full and a = 0 and msg = "[0x7b, 0x7d]"]
  by (auto simp add: store_one_full_def conn_queued_def sendQueueSize_eq)

lemma Close_open:
  assumes "isClose c = False" and "closed (send c) = False"
  shows "Close c = Inr (c\<lparr>isClose := True, send := (send c)\<lparr>closed := True\<rparr>\<rparr>)"
  using assms by (simp add: Close_def chan_close_def)

lemma Close_closed: "isClose c = True \<Longrightarrow> Close c = Inr c"
  by (simp add: Close_def)

lemma Write_closed: "isClose c = True \<Longrightarrow> Write c msg = Inr (Some ErrConnectionClosed, c)"
  by (simp add: Write_def)

text \<open>
  C8. The first \<^verbatim>\<open>Close\<close> of an open connection marks it closed and closes the send
  channel, keeping what is queued; a further \<^verbatim>\<open>Close\<close> changes nothing (so the channel
  is closed once, and the panic of a second \<^verbatim>\<open>close\<close> cannot occur); and every \<^verbatim>\<open>Write\<close>
  on the closed connection returns the error "connection is closed" and queues nothing.
\<close>

theorem Close_idempotent:
  assumes "isClose c = False" and "closed (send c) = False"
  shows "\<exists>c1. Close c = Inr c1 \<and>
     isClose c1 = True \<and> send c1 = (send c)\<lparr>closed := True\<rparr> \<and>
     Close c1 = Inr c1 \<and>
     Write c1 msg = Inr (Some ErrConnectionClosed, c1)"
  using assms by (simp add: Close_open Close_closed Write_closed)

theorem Close_idempotent_witness:
  "\<exists>c1. Close (conn_queued [[0x01]]) = Inr c1 \<and>
     isClose c1 = True \<and> closed (send c1) = True \<and> queue (send c1) = [[0x01]] \<and>
     Close c1 = Inr c1 \<and>
     Write c1 [0x7b, 0x7d] = Inr (Some ErrConnectionClosed, c1)"
  using Close_idempotent [where c = "conn_queued [[0x01]]" and msg = "[0x7b, 0x7d]"]
  by (auto simp add: conn_queued_def)

section \<open>The command set: binding and dispatch\<close>

lemma Bind_e: "e (snd (Bind s nm handler ty)) = (e s)(nm \<mapsto> \<lparr>h = handler, type' = ty\<rparr>)"
  by (simp add: Bind_def)

lemma Bind_services: "services (snd (Bind s nm handler ty)) = services s"
  by (simp add: Bind_def)

lemma Bind_log:
  "fst (Bind s nm handler ty) = (if e s nm = None then [] else [nm @ '' exist''])"
  by (simp add: Bind_def split: option.splits)

text \<open>
  C3, as stated: after two calls of \<^verbatim>\<open>Bind\<close> with one identifier the entry in force is
  the one of the first call. It is not: binding \<^verbatim>\<open>C2S_Register\<close> to handler 1 and then to
  handler 2 leaves an entry that differs from the one the first call installed.
\<close>

theorem Bind_twice_first_kept_counterexample:
  "e (snd (Bind (snd (Bind defaultCmdSet ''C2S_Register'' (1::nat) (10::nat))) ''C2S_Register'' 2 20))
     ''C2S_Register''
   \<noteq> e (snd (Bind defaultCmdSet ''C2S_Register'' (1::nat) (10::nat))) ''C2S_Register''"
  by (simp add: Bind_def defaultCmdSet_def)

text \<open>
  C3, amended: when \<^verbatim>\<open>Bind\<close> is called twice with one identifier, the second call writes
  the warning "<identifier> exist" to the log and is not rejected, and the entry in force
  afterwards is the one of the second call, with its handler and its argument type; the
  other entries and the services are as before the two calls.
\<close>

theorem Bind_twice_last_wins:
  "fst (Bind (snd (Bind s nm h1 t1)) nm h2 t2) = [nm @ '' exist''] \<and>
   e (snd (Bind (snd (Bind s nm h1 t1)) nm h2 t2)) = (e s)(nm \<mapsto> \<lparr>h = h2, type' = t2\<rparr>) \<and>
   services (snd (Bind (snd (Bind s nm h1 t1)) nm h2 t2)) = services s"
  by (simp add: Bind_e Bind_services Bind_log)

theorem Bind_twice_last_wins_witness:
  "fst (Bind (snd (Bind defaultCmdSet ''C2S_Register'' (1::nat) (10::nat))) ''C2S_Register'' 2 20)
     = [''C2S_Register exist''] \<and>
   e (snd (Bind (snd (Bind defaultCmdSet ''C2S_Register'' (1::nat) (10::nat))) ''C2S_Register'' 2 20))
     ''C2S_Register'' = Some \<lparr>h = 2, type' = 20\<rparr>"
  using Bind_twice_last_wins [where s = "defaultCmdSet :: (nat, nat) CmdSet" and nm = "''C2S_Register''"
      and ?h1.0 = 1 and ?t1.0 = 10 and ?h2.0 = 2 and ?t2.0 = 20]
  by (simp add: defaultCmdSet_def)

lemma MatchString_alnum_iff:
  "MatchString_alnum str \<longleftrightarrow> str \<noteq> [] \<and> (\<forall>c \<in> set str. isAlnum c)"
  by (simp add: MatchString_alnum_def list_all_iff)

lemma Handle_gateway_bad_name:
  assumes "routeMessage [] messageID = (serverName, nm)"
    and "isGateway ctx = True" and "\<not> MatchString_alnum nm"
  shows "Handle routeMessage GetSession decode s ctx messageID msg
     = (Some ErrInvalidMessageIdChars, [])"
  using assms by (simp add: Handle_def Let_def)

lemma Handle_routed_not_gateway:
  assumes "routeMessage [] messageID = (serverName, nm)"
    and "serverName \<noteq> []" and "isGateway ctx = False"
  shows "Handle routeMessage GetSession decode s ctx messageID msg =
     (None, case GetSession (Ssid ctx) of
              Some ss \<Rightarrow> [SessionRoute ss serverName nm (if msg = [] then [0x7b, 0x7d] else msg)]
            | None \<Rightarrow> [])"
  using assms by (simp add: Handle_def Let_def split: option.splits)

lemma Handle_routed_valid:
  assumes "routeMessage [] messageID = (serverName, nm)"
    and "serverName \<noteq> []"
    and "isGateway ctx = True \<Longrightarrow> MatchString_alnum nm \<and> services s serverName = Some True"
  shows "Handle routeMessage GetSession decode s ctx messageID msg =
     (None, case GetSession (Ssid ctx) of
              Some ss \<Rightarrow> [SessionRoute ss serverName nm (if msg = [] then [0x7b, 0x7d] else msg)]
            | None \<Rightarrow> [])"
  using assms by (cases "isGateway ctx") (simp_all add: Handle_def Let_def split: option.splits)

text \<open>
  C4. Let the identifier be a routed one: the router splits it into a server name that
  is not empty and a name. If the name has a character outside \<^verbatim>\<open>[A-Za-z0-9]\<close>, then
  \<^verbatim>\<open>Handle\<close> on a gateway connection returns the error "invalid message id" and takes no
  action (nothing is forwarded, nothing is enqueued), and \<^verbatim>\<open>Handle\<close> on a connection that
  is not a gateway returns \<^verbatim>\<open>nil\<close>, forwarding the message to the caller's session when
  there is one.
\<close>

theorem Handle_gateway_identifier_validation:
  assumes "routeMessage [] messageID = (serverName, nm)"
    and "serverName \<noteq> []"
    and "\<exists>c \<in> set nm. \<not> isAlnum c"
    and "isGateway ctxG = True" and "isGateway ctxN = False"
  shows "Handle routeMessage GetSession decode s ctxG messageID msg
       = (Some ErrInvalidMessageIdChars, []) \<and>
     Handle routeMessage GetSession decode s ctxN messageID msg =
       (None, case GetSession (Ssid ctxN) of
                Some ss \<Rightarrow> [SessionRoute ss serverName nm (if msg = [] then [0x7b, 0x7d] else msg)]
              | None \<Rightarrow> [])"
proof -
  have "\<not> MatchString_alnum nm"
    using assms(3) by (auto simp add: MatchString_alnum_iff)
  then show ?thesis
    using assms(1,2,4,5)
      Handle_gateway_bad_name [where routeMessage = routeMessage and messageID = messageID
        and serverName = serverName and nm = nm and ctx = ctxG and GetSession = GetSession
        and decode = decode and s = s and msg = msg]
      Handle_routed_not_gateway [where routeMessage = routeMessage and messageID = messageID
        and serverName = serverName and nm = nm and ctx = ctxN and GetSession = GetSession
        and decode = decode and s = s and msg = msg]
    by simp
qed

theorem Handle_gateway_identifier_validation_witness:
  "Handle routeMessage_dot sessions_one decode_any cmds_hall ctx_gateway ''hall.../admin'' [0x7b, 0x7d]
     = (Some ErrInvalidMessageIdChars, []) \<and>
   Handle routeMessage_dot sessions_one decode_any cmds_hall ctx_server ''hall.../admin'' [0x7b, 0x7d]
     = (None, [SessionRoute 7 ''hall'' ''../admin'' [0x7b, 0x7d]])"
  using Handle_gateway_identifier_validation [where routeMessage = routeMessage_dot
      and messageID = "''hall.../admin''" and serverName = "''hall''" and nm = "''../admin''"
      and ctxG = ctx_gateway and ctxN = ctx_server and GetSession = sessions_one
      and decode = decode_any and s = cmds_hall and msg = "[0x7b, 0x7d]"]
  by (simp add: routeMessage_dot_def ctx_gateway_def ctx_server_def sessions_one_def isAlnum_def)

text \<open>
  C10. Let the identifier be a routed one that passes the checks made for a gateway
  caller (for a gateway connection: the name matches \<^verbatim>\<open>^[A-Za-z0-9]+$\<close> and the server
  name is a registered, active service; for any other connection there is no check). If
  \<^verbatim>\<open>GetSession\<close> finds no session for the caller's session id, \<^verbatim>\<open>Handle\<close> returns \<^verbatim>\<open>nil\<close>
  and takes no action: the message is neither forwarded nor given to a local handler.
\<close>

theorem Handle_no_session_drops:
  assumes "routeMessage [] messageID = (serverName, nm)"
    and "serverName \<noteq> []"
    and "isGateway ctx = True \<Longrightarrow> MatchString_alnum nm \<and> services s serverName = Some True"
    and "GetSession (Ssid ctx) = None"
  shows "Handle routeMessage GetSession decode s ctx messageID msg = (None, [])"
  using assms
    Handle_routed_valid [where routeMessage = routeMessage and messageID = messageID
      and serverName = serverName and nm = nm and ctx = ctx and s = s and GetSession = GetSession
      and decode = decode and msg = msg]
  by simp

theorem Handle_no_session_drops_witness:
  "Handle routeMessage_dot sessions_none decode_any cmds_hall ctx_gateway ''hall.Enter'' [] = (None, [])"
  using Handle_no_session_drops [where routeMessage = routeMessage_dot
      and messageID = "''hall.Enter''" and serverName = "''hall''" and nm = "''Enter''"
      and ctx = ctx_gateway and GetSession = sessions_none
      and decode = decode_any and s = cmds_hall and msg = "[]"]
  by (simp add: routeMessage_dot_def ctx_gateway_def sessions_none_def isAlnum_def
      MatchString_alnum_def cmds_hall_def RegisterService_def defaultCmdSet_def)

section \<open>The registry\<close>

subsection \<open>Well-formedness is kept\<close>

lemma length_setWeights [simp]: "length (setWeights c w gws st) = length st"
  unfolding setWeights_def by (induction gws arbitrary: st) auto

lemma nth_setWeights:
  assumes "list_all (\<lambda>g. g < length st) gws" and "q < length st"
  shows "setWeights c w gws st ! q =
     (if q \<in> set gws \<and> out (st ! q) = c then (st ! q)\<lparr>weight := w\<rparr> else st ! q)"
  using assms
proof (induction gws arbitrary: st)
  case Nil
  then show ?case by (simp add: setWeights_def)
next
  case (Cons g gws)
  let ?st1 = "if out (st ! g) = c then st[g := (st ! g)\<lparr>weight := w\<rparr>] else st"
  have step: "setWeights c w (g # gws) st = setWeights c w gws ?st1"
    by (simp add: setWeights_def)
  have len: "length ?st1 = length st" by simp
  have valid: "list_all (\<lambda>g. g < length ?st1) gws" and g: "g < length st"
    using Cons.prems(1) by simp_all
  have q1: "q < length ?st1" using Cons.prems(2) by simp
  have out1: "out (?st1 ! q) = out (st ! q)"
    using g Cons.prems(2) by (cases "q = g") auto
  have "setWeights c w gws ?st1 ! q =
      (if q \<in> set gws \<and> out (?st1 ! q) = c then (?st1 ! q)\<lparr>weight := w\<rparr> else ?st1 ! q)"
    using Cons.IH [OF valid q1] .
  then show ?case
    unfolding step out1 using g Cons.prems(2) by (cases "q = g") auto
qed

lemma AddServer_objs: "objs (AddServer r p) = objs r"
  by (simp add: AddServer_def Let_def)

lemma wf_gRouter: "wf_router gRouter"
  by (simp add: wf_router_def gRouter_def)

lemma set_update_subset: "set (AList.update k v al) \<subseteq> insert (k, v) (set al)"
  by (induction al) auto

lemma wf_AddServer:
  assumes "wf_router r" and "p < length (objs r)"
  shows "wf_router (AddServer r p)"
proof -
  let ?k = "name (objs r ! p)"
  have d: "distinct (map fst (AList.update ?k p (servers r)))"
    using assms(1) by (simp add: wf_router_def distinct_update)
  have s: "list_all (\<lambda>(k, q). q < length (objs r) \<and> name (objs r ! q) = k)
      (AList.update ?k p (servers r))"
    using assms set_update_subset [of ?k p "servers r"]
    by (auto simp add: wf_router_def list_all_iff)
  have g: "list_all (\<lambda>q. q < length (objs r))
      (filter (\<lambda>q. out (objs r ! q) \<noteq> out (objs r ! p)) (gateways r) @ [p])"
    using assms by (auto simp add: wf_router_def list_all_iff)
  show ?thesis
    using d s g assms(1) by (simp add: wf_router_def AddServer_def Let_def)
qed

lemma wf_new_object:
  assumes "wf_router r"
  shows "wf_router (r\<lparr>objs := objs r @ [server]\<rparr>)"
  using assms by (auto simp add: wf_router_def list_all_iff nth_append)

lemma C2S_Register_router:
  "fst (C2S_Register peerAddr r ctx args) =
     AddServer (r\<lparr>objs := objs r @
       [\<lparr>out = Out ctx, name = ServerName args,
         addr = (let (host0, port, _) = SplitHostPort (ServerAddr args);
                     host = (if host0 = [] then fst (SplitHostPort (peerAddr (Out ctx))) else host0)
                 in if port \<noteq> [] then host @ '':'' @ port else []),
         data = ServerData args, typ' = ServerType args, weight = 0\<rparr>]\<rparr>) (length (objs r))"
  by (simp add: C2S_Register_def Let_def split: prod.splits)

lemma wf_C2S_Register:
  assumes "wf_router r"
  shows "wf_router (fst (C2S_Register peerAddr r ctx args))"
  unfolding C2S_Register_router
  by (rule wf_AddServer [OF wf_new_object [OF assms]]) simp

lemma wf_C2S_Concurrent:
  assumes "wf_router r"
  shows "wf_router (fst (C2S_Concurrent r ctx args))"
proof -
  have valid: "list_all (\<lambda>g. g < length (objs r)) (gateways r)"
    using assms by (simp add: wf_router_def)
  have "name (setWeights (Out ctx) (Weight args) (gateways r) (objs r) ! q) = name (objs r ! q)"
    if "q < length (objs r)" for q
    using nth_setWeights [OF valid that] by simp
  then show ?thesis
    using assms by (auto simp add: wf_router_def C2S_Concurrent_def Let_def list_all_iff)
qed


subsection \<open>Registering and asking for the address\<close>

lemma AddServer_lookup: "map_of (servers (AddServer r p)) (name (objs r ! p)) = Some p"
  by (simp add: AddServer_def Let_def update_conv')

lemma C2S_Register_first:
  "hd (snd (C2S_Register peerAddr r ctx args)) = WriteJSON (Out ctx) ''C2S_RegisterOk'' (JObject [])"
  by (simp add: C2S_Register_def Let_def split: prod.splits)

text \<open>
  The address under which \<^verbatim>\<open>C2S_Register\<close> enters a server: host and port joined when
  the port is not empty, the host being that of the peer when the message gives none;
  the empty address in every other case.
\<close>

lemma C2S_Register_addr:
  "GetServerAddr (fst (C2S_Register peerAddr r ctx args)) (ServerName args) =
     (let (host0, port, _) = SplitHostPort (ServerAddr args);
          host = (if host0 = [] then fst (SplitHostPort (peerAddr (Out ctx))) else host0)
      in if port \<noteq> [] then host @ '':'' @ port else [])"
proof -
  let ?new = "\<lparr>out = Out ctx, name = ServerName args,
         addr = (let (host0, port, _) = SplitHostPort (ServerAddr args);
                     host = (if host0 = [] then fst (SplitHostPort (peerAddr (Out ctx))) else host0)
                 in if port \<noteq> [] then host @ '':'' @ port else []),
         data = ServerData args, typ' = ServerType args, weight = 0\<rparr>"
  let ?r0 = "r\<lparr>objs := objs r @ [?new]\<rparr>"
  have obj: "objs ?r0 ! length (objs r) = ?new" by simp
  have "map_of (servers (AddServer ?r0 (length (objs r)))) (ServerName args) = Some (length (objs r))"
    using AddServer_lookup [of ?r0 "length (objs r)"] unfolding obj by simp
  then show ?thesis
    unfolding C2S_Register_router GetServerAddr_def AddServer_objs by simp
qed

text \<open>
  C9, as stated: after a registration of \<^verbatim>\<open>game1\<close> whose \<^verbatim>\<open>ServerAddr\<close> has no port, a
  later \<^verbatim>\<open>C2S_GetServerAddr\<close> answers with the registering connection's host followed by
  a colon. It does not: with \<^verbatim>\<open>ServerAddr\<close> empty and the registering peer at
  \<^verbatim>\<open>10.0.0.1:50000\<close>, the answer does not carry \<^verbatim>\<open>10.0.0.1:\<close>.
\<close>

theorem Register_without_port_counterexample:
  "C2S_GetServerAddr (fst (C2S_Register peer_addrs gRouter (ctx_conn 1) register_game1))
     (ctx_conn 2) query_game1
   \<noteq> [WriteJSON 2 ''S2C_GetServerAddr''
        (JObject [(''ServerName'', JString ''game1''), (''ServerAddr'', JString ''10.0.0.1:'')])]"
  by (simp add: C2S_GetServerAddr_def GetServerAddr_def C2S_Register_def AddServer_def gRouter_def
      register_game1_def query_game1_def ctx_conn_def SplitHostPort_def LastIndexByteString_def
      Let_def)

text \<open>
  C9, amended: when a client registers under a name with a \<^verbatim>\<open>ServerAddr\<close> that carries no
  port (\<^verbatim>\<open>net.SplitHostPort\<close> gives an empty port, as it does for the empty address, for a
  bare host and for a host followed by a colon only), the first message of the router is
  \<^verbatim>\<open>C2S_RegisterOk\<close> to the registering connection, and a \<^verbatim>\<open>C2S_GetServerAddr\<close> for that
  name from any connection is answered with \<^verbatim>\<open>S2C_GetServerAddr\<close> whose \<^verbatim>\<open>ServerAddr\<close> is the
  empty string: the observed host is used only together with a port.
\<close>

theorem Register_without_port_then_GetServerAddr:
  assumes "fst (snd (SplitHostPort (ServerAddr args))) = []"
    and "ServerName query = ServerName args"
  shows "hd (snd (C2S_Register peerAddr r ctx args))
       = WriteJSON (Out ctx) ''C2S_RegisterOk'' (JObject []) \<and>
     C2S_GetServerAddr (fst (C2S_Register peerAddr r ctx args)) ctx' query =
       [WriteJSON (Out ctx') ''S2C_GetServerAddr''
          (JObject [(''ServerName'', JString (ServerName args)), (''ServerAddr'', JString [])])]"
proof -
  obtain host0 port err where split: "SplitHostPort (ServerAddr args) = (host0, port, err)"
    by (cases "SplitHostPort (ServerAddr args)") auto
  then have "port = []"
    using assms(1) by simp
  then have "GetServerAddr (fst (C2S_Register peerAddr r ctx args)) (ServerName args) = []"
    using split by (simp add: C2S_Register_addr)
  then show ?thesis
    using assms(2) by (simp add: C2S_Register_first C2S_GetServerAddr_def Let_def)
qed

theorem Register_without_port_then_GetServerAddr_witness:
  "hd (snd (C2S_Register peer_addrs gRouter (ctx_conn 1) register_game1))
     = WriteJSON 1 ''C2S_RegisterOk'' (JObject []) \<and>
   C2S_GetServerAddr (fst (C2S_Register peer_addrs gRouter (ctx_conn 1) register_game1))
       (ctx_conn 2) query_game1 =
     [WriteJSON 2 ''S2C_GetServerAddr''
        (JObject [(''ServerName'', JString ''game1''), (''ServerAddr'', JString [])])]"
  using Register_without_port_then_GetServerAddr [where args = register_game1
      and query = query_game1 and peerAddr = peer_addrs and r = gRouter and ctx = "ctx_conn 1"
      and ctx' = "ctx_conn 2"]
  by (simp add: register_game1_def query_game1_def ctx_conn_def SplitHostPort_def
      LastIndexByteString_def)

subsection \<open>Weight reports and the best gateway\<close>

lemma pickBest_Some:
  "\<exists>b. pickBest xs (Some a) = Some b \<and> b \<in> insert a (set xs) \<and>
       weight b \<le> weight a \<and> (\<forall>x \<in> set xs. weight b \<le> weight x)"
proof (induction xs arbitrary: a)
  case Nil
  then show ?case by simp
next
  case (Cons x xs)
  show ?case
  proof (cases "weight x < weight a")
    case True
    from Cons.IH [of x] obtain b where
      "pickBest xs (Some x) = Some b" "b \<in> insert x (set xs)" "weight b \<le> weight x"
      "\<forall>y \<in> set xs. weight b \<le> weight y" by blast
    with True show ?thesis by auto
  next
    case False
    from Cons.IH [of a] obtain b where
      "pickBest xs (Some a) = Some b" "b \<in> insert a (set xs)" "weight b \<le> weight a"
      "\<forall>y \<in> set xs. weight b \<le> weight y" by blast
    with False show ?thesis by auto
  qed
qed

lemma pickBest_None:
  "xs \<noteq> [] \<Longrightarrow> \<exists>b. pickBest xs None = Some b \<and> b \<in> set xs \<and> (\<forall>x \<in> set xs. weight b \<le> weight x)"
proof (cases xs)
  case Nil
  assume "xs \<noteq> []"
  with Nil show ?thesis by simp
next
  case (Cons x xs')
  from pickBest_Some [of xs' x] obtain b where
    "pickBest xs' (Some x) = Some b" "b \<in> insert x (set xs')" "weight b \<le> weight x"
    "\<forall>y \<in> set xs'. weight b \<le> weight y" by blast
  with Cons show ?thesis by auto
qed

lemma GetBestGateway_empty: "gateways r = [] \<Longrightarrow> GetBestGateway r = []"
  by (simp add: GetBestGateway_def)

lemma GetBestGateway_min:
  assumes "gateways r \<noteq> []"
  shows "\<exists>g \<in> set (gateways r). GetBestGateway r = addr (objs r ! g) \<and>
           (\<forall>q \<in> set (gateways r). weight (objs r ! g) \<le> weight (objs r ! q))"
proof -
  let ?xs = "map (\<lambda>p. objs r ! p) (gateways r)"
  have "?xs \<noteq> []" using assms by simp
  from pickBest_None [OF this] obtain b where
    b: "pickBest ?xs None = Some b" "b \<in> set ?xs" "\<forall>x \<in> set ?xs. weight b \<le> weight x"
    by blast
  from b(2) obtain g where g: "g \<in> set (gateways r)" "b = objs r ! g" by auto
  have "GetBestGateway r = addr (objs r ! g)"
    using b(1) g(2) by (simp add: GetBestGateway_def)
  moreover have "\<forall>q \<in> set (gateways r). weight (objs r ! g) \<le> weight (objs r ! q)"
    using b(3) g(2) by simp
  ultimately show ?thesis using g(1) by blast
qed

text \<open>
  C5. Let every entry of the gateway list be an address of the store. \<^verbatim>\<open>C2S_Concurrent\<close>
  with the weight \<open>w\<close> from the connection \<open>c\<close> leaves both tables as they are and
  changes the store in one way only: each gateway whose connection is \<open>c\<close> has its weight
  set to \<open>w\<close>, in place. The best gateway is then computed on the new weights: the
  empty address when there is no gateway, else the address of a gateway whose weight is
  least among the gateways. If a server is registered under \<^verbatim>\<open>login\<close>, exactly one message
  is sent, \<^verbatim>\<open>S2C_GetBestGateway\<close> with that address, to the connection of that server;
  otherwise nothing is sent.
\<close>

theorem C2S_Concurrent_updates_and_reports:
  assumes "list_all (\<lambda>g. g < length (objs r)) (gateways r)"
  shows "\<exists>r1 evs best. C2S_Concurrent r ctx args = (r1, evs) \<and>
     servers r1 = servers r \<and> gateways r1 = gateways r \<and> length (objs r1) = length (objs r) \<and>
     (\<forall>q < length (objs r). objs r1 ! q =
        (if q \<in> set (gateways r) \<and> out (objs r ! q) = Out ctx
         then (objs r ! q)\<lparr>weight := Weight args\<rparr> else objs r ! q)) \<and>
     best = GetBestGateway r1 \<and>
     (gateways r = [] \<longrightarrow> best = []) \<and>
     (gateways r \<noteq> [] \<longrightarrow>
        (\<exists>g \<in> set (gateways r). best = addr (objs r1 ! g) \<and>
           (\<forall>q \<in> set (gateways r). weight (objs r1 ! g) \<le> weight (objs r1 ! q)))) \<and>
     evs = (case GetServer r1 ''login'' of
              None \<Rightarrow> []
            | Some s \<Rightarrow> [WriteJSON (out (objs r1 ! s)) ''S2C_GetBestGateway''
                           (JObject [(''Address'', JString best)])])"
proof -
  let ?r1 = "r\<lparr>objs := setWeights (Out ctx) (Weight args) (gateways r) (objs r)\<rparr>"
  have run: "C2S_Concurrent r ctx args =
      (?r1, case GetServer ?r1 ''login'' of
              None \<Rightarrow> []
            | Some s \<Rightarrow> [WriteJSON (out (objs ?r1 ! s)) ''S2C_GetBestGateway''
                           (JObject [(''Address'', JString (GetBestGateway ?r1))])])"
    by (simp add: C2S_Concurrent_def Let_def)
  have nth: "\<forall>q < length (objs r). objs ?r1 ! q =
        (if q \<in> set (gateways r) \<and> out (objs r ! q) = Out ctx
         then (objs r ! q)\<lparr>weight := Weight args\<rparr> else objs r ! q)"
    using nth_setWeights [OF assms] by simp
  have empty: "gateways r = [] \<longrightarrow> GetBestGateway ?r1 = []"
    by (simp add: GetBestGateway_empty)
  have best: "gateways r \<noteq> [] \<longrightarrow>
        (\<exists>g \<in> set (gateways r). GetBestGateway ?r1 = addr (objs ?r1 ! g) \<and>
           (\<forall>q \<in> set (gateways r). weight (objs ?r1 ! g) \<le> weight (objs ?r1 ! q)))"
    using GetBestGateway_min [of ?r1] by simp
  show ?thesis
    unfolding run using nth empty best by simp
qed

theorem C2S_Concurrent_updates_and_reports_witness:
  "C2S_Concurrent router_abc (ctx_conn 1) (report_weight 0) =
     (router_abc\<lparr>objs := (objs router_abc)[1 := (objs router_abc ! 1)\<lparr>weight := 0\<rparr>]\<rparr>,
      [WriteJSON 9 ''S2C_GetBestGateway'' (JObject [(''Address'', JString ''10.0.0.1:8001'')])]) \<and>
   GetBestGateway router_abc = ''10.0.0.2:8001''"
  using C2S_Concurrent_updates_and_reports [where r = router_abc and ctx = "ctx_conn 1"
      and args = "report_weight 0"]
  by (simp add: C2S_Concurrent_def GetBestGateway_def GetServer_def setWeights_def router_abc_def
      ctx_conn_def report_weight_def Let_def)


subsection \<open>Routing to named servers and to all\<close>

lemma fold_update_keys:
  "distinct (map fst m) \<Longrightarrow>
   distinct (map fst (fold (\<lambda>(k, q) m. AList.update (f q) True m) xs m)) \<and>
   fst ` set (fold (\<lambda>(k, q) m. AList.update (f q) True m) xs m)
     = fst ` set m \<union> (\<lambda>x. f (snd x)) ` set xs"
proof (induction xs arbitrary: m)
  case Nil
  then show ?case by simp
next
  case (Cons x xs)
  obtain k q where x: "x = (k, q)" by (cases x)
  have d: "distinct (map fst (AList.update (f q) True m))"
    using Cons.prems by (rule distinct_update)
  show ?case
    using Cons.IH [OF d] by (simp add: x dom_update Un_assoc)
qed

lemma prefixMap_keys:
  assumes "wf_router r"
  shows "mset (map fst (prefixMap r)) = mset (map fst (servers r))"
proof -
  have names: "(\<lambda>x. name (objs r ! snd x)) ` set (servers r) = fst ` set (servers r)"
    using assms by (force simp add: wf_router_def list_all_iff)
  have k: "distinct (map fst (prefixMap r))"
    "fst ` set (prefixMap r) = (\<lambda>x. name (objs r ! snd x)) ` set (servers r)"
    using fold_update_keys [of "[]" "\<lambda>q. name (objs r ! q)" "servers r"]
    by (simp_all add: prefixMap_def)
  have "set (map fst (prefixMap r)) = set (map fst (servers r))"
    using k(2) names by simp
  moreover have "distinct (map fst (servers r))"
    using assms by (simp add: wf_router_def)
  ultimately show ?thesis
    using k(1) set_eq_iff_mset_eq_distinct by blast
qed

lemma mset_concat_map:
  "mset (concat (map f xs)) = (\<Sum>x \<in># mset xs. mset (f x))"
  by (induction xs) simp_all

lemma mset_concat_map_cong:
  "mset xs = mset ys \<Longrightarrow> mset (concat (map f xs)) = mset (concat (map f ys))"
  by (simp add: mset_concat_map)

lemma concat_map_keys:
  assumes "\<And>k q. (k, q) \<in> set xs \<Longrightarrow> f k = [g q]"
  shows "concat (map f (map fst xs)) = map (\<lambda>(k, q). g q) xs"
  using assms by (induction xs) auto

lemma C2S_Route_wildcard:
  assumes "wf_router r" and "\<And>ks. mset (mapOrder ks) = mset ks"
    and "ServerList args = [''*'']"
  shows "mset (C2S_Route mapOrder r ctx args) =
     mset (map (\<lambda>(k, q). WriteJSON (out (objs r ! q)) (Name args) (Data args)) (servers r))"
proof -
  let ?f = "\<lambda>nm. case GetServer r nm of
                    None \<Rightarrow> []
                  | Some s \<Rightarrow> [WriteJSON (out (objs r ! s)) (Name args) (Data args)]"
  have run: "C2S_Route mapOrder r ctx args = concat (map ?f (mapOrder (map fst (prefixMap r))))"
    using assms(3) by (simp add: C2S_Route_def Let_def)
  have "mset (mapOrder (map fst (prefixMap r))) = mset (map fst (servers r))"
    using assms(2) prefixMap_keys [OF assms(1)] by simp
  then have "mset (concat (map ?f (mapOrder (map fst (prefixMap r)))))
      = mset (concat (map ?f (map fst (servers r))))"
    by (rule mset_concat_map_cong)
  moreover have "concat (map ?f (map fst (servers r)))
      = map (\<lambda>(k, q). WriteJSON (out (objs r ! q)) (Name args) (Data args)) (servers r)"
  proof (rule concat_map_keys)
    fix k q assume "(k, q) \<in> set (servers r)"
    moreover have "distinct (map fst (servers r))"
      using assms(1) by (simp add: wf_router_def)
    ultimately have "map_of (servers r) k = Some q" by simp
    then show "?f k = [WriteJSON (out (objs r ! q)) (Name args) (Data args)]"
      by (simp add: GetServer_def)
  qed
  ultimately show ?thesis
    unfolding run by simp
qed

lemma concat_map_filter:
  "concat (map (\<lambda>x. case m x of None \<Rightarrow> [] | Some s \<Rightarrow> [g s]) xs)
     = map (\<lambda>x. g (the (m x))) (filter (\<lambda>x. m x \<noteq> None) xs)"
  by (induction xs) (auto split: option.splits)

lemma C2S_Route_named:
  assumes "ServerList args \<noteq> [''*'']"
  shows "C2S_Route mapOrder r ctx args =
     map (\<lambda>nm. WriteJSON (out (objs r ! the (GetServer r nm))) (Name args) (Data args))
       (filter (\<lambda>nm. GetServer r nm \<noteq> None) (ServerList args))"
proof -
  have cond: "(length (ServerList args) = 1 \<and> ServerList args ! 0 = ''*'') = False"
    using assms by (cases "ServerList args") auto
  have "C2S_Route mapOrder r ctx args =
      concat (map (\<lambda>nm. case GetServer r nm of
                    None \<Rightarrow> []
                  | Some s \<Rightarrow> [WriteJSON (out (objs r ! s)) (Name args) (Data args)])
        (ServerList args))"
    unfolding C2S_Route_def Let_def cond by simp
  then show ?thesis
    by (simp add: concat_map_filter)
qed

lemma wf_router_abc: "wf_router router_abc"
  by (simp add: wf_router_def router_abc_def)

text \<open>
  C6. Let the registry be well formed, and let the run time visit the keys of a map in
  any order (\<open>mapOrder\<close> permutes its argument). With the server list \<^verbatim>\<open>["*"]\<close>,
  \<^verbatim>\<open>C2S_Route\<close> sends the message, under the given name and with the given payload, once
  for each entry of the server table, to the connection of that entry's server, and sends
  nothing else: the messages sent are, up to their order, one per registered server,
  whether or not the server is also in the gateway list. With any other list, it sends,
  in the order of the list, one message with the given name and payload to the server of
  each listed name that is registered, and nothing for a name that is not.
\<close>

theorem C2S_Route_delivery:
  assumes "wf_router r" and "\<And>ks. mset (mapOrder ks) = mset ks"
  shows "(ServerList args = [''*''] \<longrightarrow>
       mset (C2S_Route mapOrder r ctx args) =
         mset (map (\<lambda>(k, q). WriteJSON (out (objs r ! q)) (Name args) (Data args)) (servers r))) \<and>
     (ServerList args \<noteq> [''*''] \<longrightarrow>
       C2S_Route mapOrder r ctx args =
         map (\<lambda>nm. WriteJSON (out (objs r ! the (GetServer r nm))) (Name args) (Data args))
           (filter (\<lambda>nm. GetServer r nm \<noteq> None) (ServerList args)))"
  using C2S_Route_wildcard [OF assms] C2S_Route_named by blast

theorem C2S_Route_delivery_witness:
  "mset (C2S_Route rev router_abc (ctx_conn 1) (forward_kick [''*''])) =
     mset [WriteJSON 9 ''Kick'' (JRaw ''[7]''), WriteJSON 1 ''Kick'' (JRaw ''[7]''),
           WriteJSON 2 ''Kick'' (JRaw ''[7]''), WriteJSON 3 ''Kick'' (JRaw ''[7]'')] \<and>
   C2S_Route rev router_abc (ctx_conn 1) (forward_kick [''gwB'', ''nobody'', ''login'', ''gwB'']) =
     [WriteJSON 2 ''Kick'' (JRaw ''[7]''), WriteJSON 9 ''Kick'' (JRaw ''[7]''),
      WriteJSON 2 ''Kick'' (JRaw ''[7]'')]"
proof -
  have perm: "\<And>ks :: string list. mset (rev ks) = mset ks" by simp
  have wild: "mset (C2S_Route rev router_abc (ctx_conn 1) (forward_kick [''*''])) =
     mset (map (\<lambda>(k, q). WriteJSON (out (objs router_abc ! q)) (Name (forward_kick [''*'']))
                 (Data (forward_kick [''*'']))) (servers router_abc))"
    using C2S_Route_delivery [OF wf_router_abc perm, of "forward_kick [''*'']" "ctx_conn 1"]
    by (simp add: forward_kick_def)
  have named: "C2S_Route rev router_abc (ctx_conn 1) (forward_kick [''gwB'', ''nobody'', ''login'', ''gwB'']) =
     map (\<lambda>nm. WriteJSON (out (objs router_abc ! the (GetServer router_abc nm)))
            (Name (forward_kick [''gwB'', ''nobody'', ''login'', ''gwB'']))
            (Data (forward_kick [''gwB'', ''nobody'', ''login'', ''gwB''])))
       (filter (\<lambda>nm. GetServer router_abc nm \<noteq> None)
          (ServerList (forward_kick [''gwB'', ''nobody'', ''login'', ''gwB''])))"
    using C2S_Route_delivery [OF wf_router_abc perm,
        of "forward_kick [''gwB'', ''nobody'', ''login'', ''gwB'']" "ctx_conn 1"]
    by (simp add: forward_kick_def)
  show ?thesis
    unfolding wild named
    by (simp add: router_abc_def forward_kick_def GetServer_def)
qed

end
